theory Spec2Isabelle
  imports Main "HOL-Library.Sublist"
begin

section \<open>The dashboard page of the web application (webapp/src/pages/Dashboard.tsx)\<close>

text \<open>
  \<open>Dashboard\<close> is a React function component: a pure function from the values its hooks
  return (route parameter, query state, the two query results) to an element tree. The
  embedding takes these hook results as arguments and returns the tree as a datatype.

  Three imports of the component come from modules whose text is missing: the constants
  \<open>DATASET_SPLIT_NAMES\<close> and \<open>UNKNOWN_ERROR\<close> of \<open>utils/const\<close> and the helper
  \<open>isPipelineSelected\<close> of \<open>utils/helpers\<close>. They are arguments of the model under
  their own names, so every theorem below holds for whatever they are. The cards'
  contents, the preview components, take no part in the decisions and are recorded by
  name.
\<close>

subsection \<open>JavaScript values\<close>

text \<open>
  A value of type \<open>T | undefined\<close> is a \<open>T option\<close>, \<open>None\<close> being \<open>undefined\<close>.
  A property read \<open>obj[key]\<close> of a key the object does not have is \<open>undefined\<close>, so
  an object used as a dictionary is a map.
\<close>

text \<open>Truthiness of a \<open>boolean | undefined\<close>: only \<open>true\<close> is truthy.\<close>

fun truthy :: "bool option \<Rightarrow> bool" where
  "truthy (Some b) = b"
| "truthy None = False"

text \<open>\<open>s || d\<close> for a \<open>string | undefined\<close>: \<open>undefined\<close> and the empty string are falsy.\<close>

fun or_string :: "string option \<Rightarrow> string \<Rightarrow> string" where
  "or_string None d = d"
| "or_string (Some s) d = (if s = [] then d else s)"

text \<open>A template literal \<open>${v}\<close> converts \<open>undefined\<close> to the text \<open>undefined\<close>.\<close>

fun interpolate :: "string option \<Rightarrow> string" where
  "interpolate (Some s) = s"
| "interpolate None = ''undefined''"

subsection \<open>The data the hooks deliver\<close>

text \<open>\<open>useQueryState()\<close>: the selected pipeline and the serialized query string.\<close>

record QueryPipelineState =
  pipelineIndex :: "nat option"

record QueryState =
  pipeline :: QueryPipelineState
  searchString :: string

text \<open>\<open>getConfigEndpoint.useQuery\<close>: only \<open>pipelines\<close> and its length are read.\<close>

record 'p Config =
  pipelines :: "'p list option"

text \<open>
  \<open>getDatasetInfoEndpoint.useQuery\<close>: \<open>data\<close>, \<open>error\<close> and \<open>isFetching\<close>.
  \<open>availableDatasetSplits\<close> is read at \<open>train\<close>, at \<open>eval\<close> and at each member of
  \<open>DATASET_SPLIT_NAMES\<close>; \<open>postprocessingEditable\<close> is read with \<open>?.[index]\<close>, so it
  may itself be missing.
\<close>

record DatasetInfo =
  availableDatasetSplits :: "string \<rightharpoonup> bool"
  similarityAvailable :: bool
  perturbationTestingAvailable :: bool
  postprocessingEditable :: "(nat \<rightharpoonup> bool) option"

record QueryError =
  message :: "string option"

record DatasetInfoQuery =
  data :: "DatasetInfo option"
  error :: "QueryError option"
  isFetching :: bool

subsection \<open>The element tree\<close>

text \<open>
  Descriptions are either built in place (\<open>text\<close> and \<open>link\<close>) or imported from the
  pages they describe; the imported ones are opaque here.
\<close>

datatype description =
    Description string string
  | performanceAnalysisDescription
  | smartTagsDescription
  | behavioralTestingDescription
  | postprocessingDescription

text \<open>The preview component placed inside each card.\<close>

datatype preview =
    WarningsPreview
  | ClassOverlapTable
  | PerformanceAnalysis
  | SmartTagsTable
  | PerturbationTestingPreview
  | ThresholdPlot

record PreviewCard =
  title :: string
  to :: string
  linkButtonText :: "string option"
  description :: description
  children :: preview

text \<open>
  A section of the page is a card, or a \<open>WithDatasetSplitNameState\<close> element carrying
  its \<open>defaultDatasetSplitName\<close> and its \<open>render\<close> function from the current split name
  to a card.
\<close>

datatype dashboard_section =
    Card PreviewCard
  | WithDatasetSplitNameState "string option" "string option \<Rightarrow> PreviewCard"

record Header =
  heading :: string
  headerDescription :: description
  buttonTo :: string
  buttonText :: string

datatype element =
    Loading
  | NoData string
  | Page Header "dashboard_section list"

subsection \<open>The component\<close>

text \<open>Line 45: \<open>error?.message || UNKNOWN_ERROR\<close>.\<close>

definition errorMessage :: "string \<Rightarrow> QueryError option \<Rightarrow> string" where
  "errorMessage UNKNOWN_ERROR err =
     or_string (case err of None \<Rightarrow> None | Some e \<Rightarrow> message e) UNKNOWN_ERROR"

text \<open>Lines 50-52: \<open>DATASET_SPLIT_NAMES.find(...)\<close>; the \<open>!\<close> is erased at run time.\<close>

definition firstAvailableDatasetSplit :: "string list \<Rightarrow> DatasetInfo \<Rightarrow> string option" where
  "firstAvailableDatasetSplit DATASET_SPLIT_NAMES datasetInfo =
     List.find (\<lambda>datasetSplitName. truthy (availableDatasetSplits datasetInfo datasetSplitName))
       DATASET_SPLIT_NAMES"

text \<open>Line 183: \<open>datasetInfo.postprocessingEditable?.[pipeline.pipelineIndex]\<close>.\<close>

definition postprocessingEditableAt :: "DatasetInfo \<Rightarrow> QueryPipelineState \<Rightarrow> bool option" where
  "postprocessingEditableAt datasetInfo p =
     (case postprocessingEditable datasetInfo of
        None \<Rightarrow> None
      | Some m \<Rightarrow> (case pipelineIndex p of None \<Rightarrow> None | Some i \<Rightarrow> m i))"

text \<open>Lines 121-125: the \<open>linkButtonText\<close> of the pipeline metrics card.\<close>

definition compareLinkText :: "'p Config option \<Rightarrow> string option" where
  "compareLinkText config =
     (case config of
        None \<Rightarrow> None
      | Some c \<Rightarrow>
          (case pipelines c of
             None \<Rightarrow> None
           | Some ps \<Rightarrow> if length ps > 1 then Some ''Compare pipelines'' else None))"

text \<open>A JSX child \<open>{cond && <X/>}\<close> contributes \<open>X\<close> when \<open>cond\<close> is truthy, nothing otherwise.\<close>

definition jsx_and :: "bool \<Rightarrow> 'a \<Rightarrow> 'a list" where
  "jsx_and c x = (if c then [x] else [])"

text \<open>Lines 54-195: the tree returned once the dataset info is there.\<close>

definition sections ::
  "string list \<Rightarrow> (QueryPipelineState \<Rightarrow> bool) \<Rightarrow> string \<Rightarrow> QueryState \<Rightarrow>
   'p Config option \<Rightarrow> DatasetInfo \<Rightarrow> dashboard_section list" where
  "sections DATASET_SPLIT_NAMES isPipelineSelected jobId qs config datasetInfo =
     [Card \<lparr>title = ''Dataset Warnings'',
            to = ''/'' @ jobId @ ''/dataset_warnings'' @ searchString qs,
            linkButtonText = None,
            description = Description
              ''Investigate issues related to class size, class imbalance, or dataset shift between your training and evaluation sets.''
              ''user-guide/dataset-warnings/'',
            children = WarningsPreview\<rparr>]
     @ jsx_and (truthy (availableDatasetSplits datasetInfo ''train'')
              \<and> similarityAvailable datasetInfo)
         (Card \<lparr>title = ''Class Overlap'',
                to = ''/'' @ jobId @ ''/dataset_splits/train/class_overlap'' @ searchString qs,
                linkButtonText = None,
                description = Description
                  ''Assess semantic overlap between class pairs and compare to pipeline confusion.''
                  ''user-guide/class-overlap/'',
                children = ClassOverlapTable\<rparr>)
     @ jsx_and (isPipelineSelected (pipeline qs))
         (WithDatasetSplitNameState
            (firstAvailableDatasetSplit DATASET_SPLIT_NAMES datasetInfo)
            (\<lambda>datasetSplitName.
               \<lparr>title = ''Pipeline Metrics by Data Subpopulation'',
                to = ''/'' @ jobId @ ''/dataset_splits/'' @ interpolate datasetSplitName
                       @ ''/pipeline_metrics'' @ searchString qs,
                linkButtonText = compareLinkText config,
                description = performanceAnalysisDescription,
                children = PerformanceAnalysis\<rparr>))
     @ jsx_and (isPipelineSelected (pipeline qs))
         (WithDatasetSplitNameState
            (firstAvailableDatasetSplit DATASET_SPLIT_NAMES datasetInfo)
            (\<lambda>datasetSplitName.
               \<lparr>title = ''Smart Tag Analysis'',
                to = ''/'' @ jobId @ ''/dataset_splits/'' @ interpolate datasetSplitName
                       @ ''/smart_tags'' @ searchString qs,
                linkButtonText = None,
                description = smartTagsDescription,
                children = SmartTagsTable\<rparr>))
     @ jsx_and (isPipelineSelected (pipeline qs) \<and> perturbationTestingAvailable datasetInfo)
         (Card \<lparr>title = ''Behavioral Testing'',
                to = ''/'' @ jobId @ ''/behavioral_testing_summary'' @ searchString qs,
                linkButtonText = None,
                description = behavioralTestingDescription,
                children = PerturbationTestingPreview\<rparr>)
     @ jsx_and (isPipelineSelected (pipeline qs)
              \<and> truthy (availableDatasetSplits datasetInfo ''eval'')
              \<and> truthy (postprocessingEditableAt datasetInfo (pipeline qs)))
         (Card \<lparr>title = ''Post-processing Analysis'',
                to = ''/'' @ jobId @ ''/thresholds'' @ searchString qs,
                linkButtonText = None,
                description = postprocessingDescription,
                children = ThresholdPlot\<rparr>)"

definition header :: "string list \<Rightarrow> string \<Rightarrow> QueryState \<Rightarrow> DatasetInfo \<Rightarrow> Header" where
  "header DATASET_SPLIT_NAMES jobId qs datasetInfo =
     \<lparr>heading = ''Dashboard'',
      headerDescription = Description
        ''Explore the analyses of your datasets and pipelines.'' ''user-guide/'',
      buttonTo = ''/'' @ jobId @ ''/dataset_splits/''
        @ interpolate (firstAvailableDatasetSplit DATASET_SPLIT_NAMES datasetInfo)
        @ ''/prediction_overview'' @ searchString qs,
      buttonText = ''Go to exploration space''\<rparr>"

text \<open>
  Lines 27-196. The tests of lines 39 and 41 come first and in this order; the case
  distinction after them only binds \<open>datasetInfo\<close>, which line 41 has found defined.
\<close>

definition Dashboard ::
  "string list \<Rightarrow> string \<Rightarrow> (QueryPipelineState \<Rightarrow> bool) \<Rightarrow> string \<Rightarrow> QueryState \<Rightarrow>
   'p Config option \<Rightarrow> DatasetInfoQuery \<Rightarrow> element" where
  "Dashboard DATASET_SPLIT_NAMES UNKNOWN_ERROR isPipelineSelected jobId qs config q =
     (if isFetching q then Loading
      else if error q \<noteq> None \<or> data q = None then
        NoData (errorMessage UNKNOWN_ERROR (error q))
      else
        (case data q of
           None \<Rightarrow> NoData (errorMessage UNKNOWN_ERROR (error q))
         | Some datasetInfo \<Rightarrow>
             Page (header DATASET_SPLIT_NAMES jobId qs datasetInfo)
                  (sections DATASET_SPLIT_NAMES isPipelineSelected jobId qs config datasetInfo)))"

subsection \<open>Reading the tree\<close>

fun pageSections :: "element \<Rightarrow> dashboard_section list" where
  "pageSections (Page h ss) = ss"
| "pageSections Loading = []"
| "pageSections (NoData m) = []"

fun pageHeader :: "element \<Rightarrow> Header option" where
  "pageHeader (Page h ss) = Some h"
| "pageHeader Loading = None"
| "pageHeader (NoData m) = None"

text \<open>The card a section shows when its current split name is \<open>s\<close>.\<close>

fun cardAt :: "string option \<Rightarrow> dashboard_section \<Rightarrow> PreviewCard" where
  "cardAt s (Card c) = c"
| "cardAt s (WithDatasetSplitNameState d r) = r s"

text \<open>
  A section is rendered when the tree holds a section with that title. The title of a
  card does not depend on the split name; it is read at the default one.
\<close>

fun sectionTitle :: "dashboard_section \<Rightarrow> string" where
  "sectionTitle (Card c) = title c"
| "sectionTitle (WithDatasetSplitNameState d r) = title (r d)"

definition findSection :: "string \<Rightarrow> element \<Rightarrow> dashboard_section option" where
  "findSection t e = List.find (\<lambda>s. sectionTitle s = t) (pageSections e)"

definition rendered :: "string \<Rightarrow> element \<Rightarrow> bool" where
  "rendered t e = (findSection t e \<noteq> None)"

subsection \<open>The split state of a section\<close>

text \<open>
  Modelled from the spec: the component \<open>WithDatasetSplitNameState\<close>
  (\<open>components/WithDatasetSplitNameState\<close>) is missing from the sources. The spec has
  each such section hold its own current split name, "initialized to the default split"
  and changed by the user within the section only; the section shows what \<open>render\<close>
  returns for the current name.
\<close>

definition initialDatasetSplitName :: "string option \<Rightarrow> string option" where
  "initialDatasetSplitName defaultDatasetSplitName = defaultDatasetSplitName"

text \<open>The card a section shows first.\<close>

fun initialCard :: "dashboard_section \<Rightarrow> PreviewCard" where
  "initialCard (Card c) = c"
| "initialCard (WithDatasetSplitNameState d r) = r (initialDatasetSplitName d)"

subsection \<open>The two shapes of a navigation target\<close>

text \<open>
  The section paths that follow the job id directly, and those that follow a dataset
  split; \<open>linkShape\<close> is the URL contract of the spec with these paths filled in.
\<close>

definition plainSectionPaths :: "string list" where
  "plainSectionPaths = [''dataset_warnings'', ''behavioral_testing_summary'', ''thresholds'']"

definition splitSectionPaths :: "string list" where
  "splitSectionPaths =
     [''prediction_overview'', ''class_overlap'', ''pipeline_metrics'', ''smart_tags'']"

definition linkShape :: "string \<Rightarrow> string \<Rightarrow> string \<Rightarrow> bool" where
  "linkShape jobId search l \<longleftrightarrow>
     (\<exists>p \<in> set plainSectionPaths. l = ''/'' @ jobId @ ''/'' @ p @ search)
   \<or> (\<exists>split. \<exists>p \<in> set splitSectionPaths.
         l = ''/'' @ jobId @ ''/dataset_splits/'' @ split @ ''/'' @ p @ search)"

subsection \<open>Example inputs\<close>

text \<open>
  The two scenarios of the spec's section 8 and the inputs around them. In the examples
  a pipeline counts as selected when its index is defined, the split names are
  \<open>eval\<close>, \<open>train\<close> in this order and the fallback text is \<open>unknown error\<close>.
\<close>

definition pipelineIndexDefined :: "QueryPipelineState \<Rightarrow> bool" where
  "pipelineIndexDefined p = (pipelineIndex p \<noteq> None)"

definition trainOnlyInfo :: DatasetInfo where
  "trainOnlyInfo =
     \<lparr>availableDatasetSplits = [''train'' \<mapsto> True, ''eval'' \<mapsto> False],
      similarityAvailable = False,
      perturbationTestingAvailable = False,
      postprocessingEditable = None\<rparr>"

definition fullInfo :: DatasetInfo where
  "fullInfo =
     \<lparr>availableDatasetSplits = [''train'' \<mapsto> True, ''eval'' \<mapsto> True],
      similarityAvailable = True,
      perturbationTestingAvailable = True,
      postprocessingEditable = Some [0 \<mapsto> True]\<rparr>"

definition noPipeline :: QueryState where
  "noPipeline = \<lparr>pipeline = \<lparr>pipelineIndex = None\<rparr>, searchString = []\<rparr>"

definition pipeline0 :: QueryState where
  "pipeline0 = \<lparr>pipeline = \<lparr>pipelineIndex = Some 0\<rparr>, searchString = ''?pipeline_index=0''\<rparr>"

definition twoPipelines :: "nat Config option" where
  "twoPipelines = Some \<lparr>pipelines = Some [0, 1]\<rparr>"

definition succeeded :: "DatasetInfo \<Rightarrow> DatasetInfoQuery" where
  "succeeded info = \<lparr>data = Some info, error = None, isFetching = False\<rparr>"

definition failed :: "string option \<Rightarrow> DatasetInfoQuery" where
  "failed m = \<lparr>data = None, error = Some \<lparr>message = m\<rparr>, isFetching = False\<rparr>"

section \<open>Properties\<close>

subsection \<open>Auxiliary facts\<close>

lemmas example_defs =
  pipelineIndexDefined_def trainOnlyInfo_def fullInfo_def noPipeline_def pipeline0_def
  twoPipelines_def succeeded_def failed_def

lemmas eval_defs =
  Dashboard_def header_def sections_def jsx_and_def firstAvailableDatasetSplit_def
  postprocessingEditableAt_def compareLinkText_def errorMessage_def
  rendered_def findSection_def

lemma truthy_iff: "truthy v \<longleftrightarrow> v = Some True"
  by (cases v) auto

text \<open>\<open>find\<close> returns the element at the least index whose entry is \<open>true\<close>.\<close>

lemma find_first_available:
  assumes "\<exists>n \<in> set names. availableDatasetSplits info n = Some True"
  shows "\<exists>i < length names.
           firstAvailableDatasetSplit names info = Some (names ! i)
         \<and> availableDatasetSplits info (names ! i) = Some True
         \<and> (\<forall>j < i. availableDatasetSplits info (names ! j) \<noteq> Some True)"
proof -
  let ?P = "\<lambda>n. truthy (availableDatasetSplits info n)"
  from assms have "\<exists>n \<in> set names. ?P n" by (simp add: truthy_iff)
  then obtain x where "List.find ?P names = Some x"
    by (cases "List.find ?P names") (auto simp: find_None_iff)
  then show ?thesis
    unfolding firstAvailableDatasetSplit_def find_Some_iff by (auto simp: truthy_iff)
qed

lemma Dashboard_Page:
  assumes "\<not> isFetching q" "error q = None" "data q = Some info"
  shows "Dashboard names unk sel jobId qs config q
         = Page (header names jobId qs info) (sections names sel jobId qs config info)"
  using assms by (simp add: Dashboard_def)

text \<open>A target built from a listed section path has the shape, and the shape fixes both ends.\<close>

lemma linkShape_plain:
  "p \<in> set plainSectionPaths \<Longrightarrow> linkShape jobId search (''/'' @ jobId @ ''/'' @ p @ search)"
  unfolding linkShape_def by blast

lemma linkShape_split:
  "p \<in> set splitSectionPaths \<Longrightarrow>
   linkShape jobId search (''/'' @ jobId @ ''/dataset_splits/'' @ split @ ''/'' @ p @ search)"
  unfolding linkShape_def by blast

lemma linkShape_prefix_suffix:
  assumes "linkShape jobId search l"
  shows "prefix (''/'' @ jobId @ ''/'') l \<and> suffix search l"
  using assms unfolding linkShape_def prefix_def suffix_def by auto

text \<open>
  What \<open>findSection\<close> returns on the page for each of the six titles: the section with
  its target when the section's condition holds, nothing otherwise.
\<close>

lemma find_DatasetWarnings:
  "\<exists>c. findSection ''Dataset Warnings'' (Page h (sections names sel jobId qs config info)) = Some (Card c)
     \<and> to c = ''/'' @ jobId @ ''/dataset_warnings'' @ searchString qs"
  by (simp add: findSection_def sections_def)

lemma find_ClassOverlap:
  "if availableDatasetSplits info ''train'' = Some True \<and> similarityAvailable info
   then \<exists>c. findSection ''Class Overlap'' (Page h (sections names sel jobId qs config info)) = Some (Card c)
          \<and> to c = ''/'' @ jobId @ ''/dataset_splits/train/class_overlap'' @ searchString qs
   else findSection ''Class Overlap'' (Page h (sections names sel jobId qs config info)) = None"
  by (simp add: findSection_def sections_def jsx_and_def truthy_iff)

lemma find_PipelineMetrics:
  "if sel (pipeline qs)
   then \<exists>r. findSection ''Pipeline Metrics by Data Subpopulation''
               (Page h (sections names sel jobId qs config info))
             = Some (WithDatasetSplitNameState (firstAvailableDatasetSplit names info) r)
          \<and> (\<forall>s. to (r s) = ''/'' @ jobId @ ''/dataset_splits/'' @ interpolate s
                               @ ''/pipeline_metrics'' @ searchString qs
                  \<and> linkButtonText (r s) = compareLinkText config)
   else findSection ''Pipeline Metrics by Data Subpopulation''
          (Page h (sections names sel jobId qs config info)) = None"
  by (simp add: findSection_def sections_def jsx_and_def truthy_iff)

lemma find_SmartTags:
  "if sel (pipeline qs)
   then \<exists>r. findSection ''Smart Tag Analysis'' (Page h (sections names sel jobId qs config info))
             = Some (WithDatasetSplitNameState (firstAvailableDatasetSplit names info) r)
          \<and> (\<forall>s. to (r s) = ''/'' @ jobId @ ''/dataset_splits/'' @ interpolate s
                               @ ''/smart_tags'' @ searchString qs)
   else findSection ''Smart Tag Analysis'' (Page h (sections names sel jobId qs config info)) = None"
  by (simp add: findSection_def sections_def jsx_and_def truthy_iff)

lemma find_BehavioralTesting:
  "if sel (pipeline qs) \<and> perturbationTestingAvailable info
   then \<exists>c. findSection ''Behavioral Testing'' (Page h (sections names sel jobId qs config info)) = Some (Card c)
          \<and> to c = ''/'' @ jobId @ ''/behavioral_testing_summary'' @ searchString qs
   else findSection ''Behavioral Testing'' (Page h (sections names sel jobId qs config info)) = None"
  by (simp add: findSection_def sections_def jsx_and_def truthy_iff)

lemma find_Postprocessing:
  "if sel (pipeline qs) \<and> availableDatasetSplits info ''eval'' = Some True
      \<and> postprocessingEditableAt info (pipeline qs) = Some True
   then \<exists>c. findSection ''Post-processing Analysis'' (Page h (sections names sel jobId qs config info)) = Some (Card c)
          \<and> to c = ''/'' @ jobId @ ''/thresholds'' @ searchString qs
   else findSection ''Post-processing Analysis'' (Page h (sections names sel jobId qs config info)) = None"
  by (simp add: findSection_def sections_def jsx_and_def truthy_iff)

text \<open>The two guarded reads of the page, spelled out.\<close>

lemma postprocessingEditableAt_iff:
  "postprocessingEditableAt info p = Some True \<longleftrightarrow>
   (\<exists>m i. postprocessingEditable info = Some m \<and> pipelineIndex p = Some i \<and> m i = Some True)"
  by (auto simp: postprocessingEditableAt_def split: option.splits)

lemma compareLinkText_iff:
  "compareLinkText config =
   (if \<exists>c ps. config = Some c \<and> pipelines c = Some ps \<and> length ps > 1
    then Some ''Compare pipelines'' else None)"
  by (auto simp: compareLinkText_def split: option.splits)

text \<open>Every target of the page has one of the two shapes, whatever split a section shows.\<close>

lemma sections_links:
  "\<forall>sec \<in> set (sections names sel jobId qs config info). \<forall>s.
     linkShape jobId (searchString qs) (to (cardAt s sec))"
  unfolding sections_def jsx_and_def
  using linkShape_plain [of "''dataset_warnings''" jobId "searchString qs"]
        linkShape_plain [of "''behavioral_testing_summary''" jobId "searchString qs"]
        linkShape_plain [of "''thresholds''" jobId "searchString qs"]
        linkShape_split [of "''class_overlap''" jobId "searchString qs" "''train''"]
        linkShape_split [of "''pipeline_metrics''" jobId "searchString qs"]
        linkShape_split [of "''smart_tags''" jobId "searchString qs"]
  by (auto simp: plainSectionPaths_def splitSectionPaths_def)

lemma header_link:
  "linkShape jobId (searchString qs) (buttonTo (header names jobId qs info))"
  using linkShape_split [of "''prediction_overview''" jobId "searchString qs"
      "interpolate (firstAvailableDatasetSplit names info)"]
  by (simp add: header_def splitSectionPaths_def)

text \<open>The example query results are in the state their names say.\<close>

lemma succeeded_fields:
  "\<not> isFetching (succeeded i)" "error (succeeded i) = None" "data (succeeded i) = Some i"
  by (simp_all add: succeeded_def)

subsection \<open>The default split\<close>

text \<open>
  C1. The entries of \<open>availableDatasetSplits\<close> are keyed by the split names, the members
  of \<open>DATASET_SPLIT_NAMES\<close>. Whenever one of them is \<open>true\<close>,
  \<open>firstAvailableDatasetSplit\<close> is the name at the least position of
  \<open>DATASET_SPLIT_NAMES\<close> whose entry is \<open>true\<close>. The value is a function of the list and
  of \<open>availableDatasetSplits\<close> alone, so evaluating it again on the same input gives the
  same name.
\<close>

theorem firstAvailableDatasetSplit_is_first_true:
  assumes "\<exists>n \<in> set DATASET_SPLIT_NAMES. availableDatasetSplits datasetInfo n = Some True"
  shows "(\<exists>i < length DATASET_SPLIT_NAMES.
            firstAvailableDatasetSplit DATASET_SPLIT_NAMES datasetInfo = Some (DATASET_SPLIT_NAMES ! i)
          \<and> availableDatasetSplits datasetInfo (DATASET_SPLIT_NAMES ! i) = Some True
          \<and> (\<forall>j < i. availableDatasetSplits datasetInfo (DATASET_SPLIT_NAMES ! j) \<noteq> Some True))
       \<and> (\<forall>other. availableDatasetSplits other = availableDatasetSplits datasetInfo \<longrightarrow>
            firstAvailableDatasetSplit DATASET_SPLIT_NAMES other
            = firstAvailableDatasetSplit DATASET_SPLIT_NAMES datasetInfo)"
proof
  show "\<exists>i < length DATASET_SPLIT_NAMES.
            firstAvailableDatasetSplit DATASET_SPLIT_NAMES datasetInfo = Some (DATASET_SPLIT_NAMES ! i)
          \<and> availableDatasetSplits datasetInfo (DATASET_SPLIT_NAMES ! i) = Some True
          \<and> (\<forall>j < i. availableDatasetSplits datasetInfo (DATASET_SPLIT_NAMES ! j) \<noteq> Some True)"
    using assms by (rule find_first_available)
next
  show "\<forall>other. availableDatasetSplits other = availableDatasetSplits datasetInfo \<longrightarrow>
            firstAvailableDatasetSplit DATASET_SPLIT_NAMES other
            = firstAvailableDatasetSplit DATASET_SPLIT_NAMES datasetInfo"
    by (simp add: firstAvailableDatasetSplit_def)
qed

theorem firstAvailableDatasetSplit_is_first_true_witness:
  "availableDatasetSplits trainOnlyInfo ''train'' = Some True
   \<and> firstAvailableDatasetSplit [''eval'', ''train''] trainOnlyInfo = Some ''train''"
proof -
  have h: "\<exists>n \<in> set [''eval'', ''train'']. availableDatasetSplits trainOnlyInfo n = Some True"
    by (simp add: trainOnlyInfo_def)
  show ?thesis
    using firstAvailableDatasetSplit_is_first_true [OF h]
    by (simp add: trainOnlyInfo_def firstAvailableDatasetSplit_def)
qed

subsection \<open>Dispatch\<close>

text \<open>
  C2, as amended. The render decision is taken in this order, for every input. While the
  dataset-info fetch is in flight the output is the loading indicator alone, whatever the
  job configuration, the data or the error are, and it holds no section. Otherwise, when
  the fetch has an error or no data, the output is the placeholder, again without any
  section; its text is the error's message when that message is present and not empty, and
  \<open>UNKNOWN_ERROR\<close> when there is no error, no message or an empty message. Otherwise
  the page with its header and sections is built from the data.
\<close>

theorem Dashboard_dispatch_order:
  fixes config :: "'p Config option"
  assumes D: "D = Dashboard DATASET_SPLIT_NAMES UNKNOWN_ERROR isPipelineSelected jobId qs config q"
  shows "(isFetching q \<longrightarrow> D = Loading \<and> pageSections D = [])
       \<and> (\<not> isFetching q \<and> (error q \<noteq> None \<or> data q = None) \<longrightarrow>
            pageSections D = []
          \<and> (\<forall>e m. error q = Some e \<and> message e = Some m \<and> m \<noteq> [] \<longrightarrow> D = NoData m)
          \<and> (error q = None \<or> (\<exists>e. error q = Some e \<and> (message e = None \<or> message e = Some []))
               \<longrightarrow> D = NoData UNKNOWN_ERROR))
       \<and> (\<not> isFetching q \<and> error q = None \<and> data q \<noteq> None \<longrightarrow>
            (\<exists>datasetInfo. data q = Some datasetInfo
               \<and> D = Page (header DATASET_SPLIT_NAMES jobId qs datasetInfo)
                       (sections DATASET_SPLIT_NAMES isPipelineSelected jobId qs config datasetInfo)))"
  unfolding D by (auto simp: Dashboard_def errorMessage_def)

text \<open>The four branches on the example inputs.\<close>

theorem Dashboard_dispatch_order_witness:
  "Dashboard [''eval'', ''train''] ''unknown error'' pipelineIndexDefined ''job'' pipeline0
       twoPipelines
     \<lparr>data = Some fullInfo, error = None, isFetching = True\<rparr> = Loading
   \<and> Dashboard [''eval'', ''train''] ''unknown error'' pipelineIndexDefined ''job'' pipeline0
       twoPipelines
       (failed (Some ''Not Found'')) = NoData ''Not Found''
   \<and> Dashboard [''eval'', ''train''] ''unknown error'' pipelineIndexDefined ''job'' pipeline0
       twoPipelines
       (failed None) = NoData ''unknown error''
   \<and> pageHeader (Dashboard [''eval'', ''train''] ''unknown error'' pipelineIndexDefined ''job'' pipeline0
       twoPipelines (succeeded fullInfo))
     = Some (header [''eval'', ''train''] ''job'' pipeline0 fullInfo)"
  using
    Dashboard_dispatch_order [where DATASET_SPLIT_NAMES = "[''eval'', ''train'']"
      and UNKNOWN_ERROR = "''unknown error''" and isPipelineSelected = pipelineIndexDefined
      and jobId = "''job''" and qs = pipeline0 and config = twoPipelines
      and q = "\<lparr>data = Some fullInfo, error = None, isFetching = True\<rparr>", OF refl]
    Dashboard_dispatch_order [where DATASET_SPLIT_NAMES = "[''eval'', ''train'']"
      and UNKNOWN_ERROR = "''unknown error''" and isPipelineSelected = pipelineIndexDefined
      and jobId = "''job''" and qs = pipeline0 and config = twoPipelines
      and q = "failed (Some ''Not Found'')", OF refl]
    Dashboard_dispatch_order [where DATASET_SPLIT_NAMES = "[''eval'', ''train'']"
      and UNKNOWN_ERROR = "''unknown error''" and isPipelineSelected = pipelineIndexDefined
      and jobId = "''job''" and qs = pipeline0 and config = twoPipelines
      and q = "failed None", OF refl]
    Dashboard_dispatch_order [where DATASET_SPLIT_NAMES = "[''eval'', ''train'']"
      and UNKNOWN_ERROR = "''unknown error''" and isPipelineSelected = pipelineIndexDefined
      and jobId = "''job''" and qs = pipeline0 and config = twoPipelines
      and q = "succeeded fullInfo", OF refl]
  by (simp add: failed_def succeeded_def)

text \<open>
  C2 as stated fails where the message is present and empty: the claim asks for the
  message, the empty text, and the placeholder shows the fallback.
\<close>

theorem Dashboard_empty_message_counterexample:
  "message \<lparr>message = Some ''''\<rparr> = Some ''''
   \<and> Dashboard [''eval'', ''train''] ''unknown error'' pipelineIndexDefined ''job'' noPipeline
       (None :: nat Config option) (failed (Some ''''))
     = NoData ''unknown error''
   \<and> Dashboard [''eval'', ''train''] ''unknown error'' pipelineIndexDefined ''job'' noPipeline
       (None :: nat Config option) (failed (Some ''''))
     \<noteq> NoData ''''"
  by (simp add: Dashboard_def errorMessage_def failed_def)

text \<open>
  C10. In the failed branch with an error, the placeholder shows the error's message only
  when it is a non-empty string; an empty message gives \<open>UNKNOWN_ERROR\<close>, as a missing
  one does.
\<close>

theorem empty_message_falls_back:
  fixes config :: "'p Config option"
  assumes "\<not> isFetching q" and "error q = Some e"
  shows "Dashboard DATASET_SPLIT_NAMES UNKNOWN_ERROR isPipelineSelected jobId qs config q
         = NoData (case message e of
                     None \<Rightarrow> UNKNOWN_ERROR
                   | Some m \<Rightarrow> if m = [] then UNKNOWN_ERROR else m)"
  using assms by (simp add: Dashboard_def errorMessage_def split: option.splits)

theorem empty_message_falls_back_witness:
  "\<not> isFetching (failed (Some '''')) \<and> error (failed (Some '''')) = Some \<lparr>message = Some ''''\<rparr>
   \<and> Dashboard [''eval'', ''train''] ''unknown error'' pipelineIndexDefined ''job'' noPipeline
       (None :: nat Config option) (failed (Some '''')) = NoData ''unknown error''
   \<and> Dashboard [''eval'', ''train''] ''unknown error'' pipelineIndexDefined ''job'' noPipeline
       (None :: nat Config option) (failed (Some ''Not Found'')) = NoData ''Not Found''"
proof -
  have f: "\<not> isFetching (failed m)" and e: "error (failed m) = Some \<lparr>message = m\<rparr>" for m
    by (simp_all add: failed_def)
  show ?thesis
    using f [of "Some ''''"] e [of "Some ''''"]
      empty_message_falls_back [OF f [of "Some ''''"] e [of "Some ''''"],
        where DATASET_SPLIT_NAMES = "[''eval'', ''train'']" and UNKNOWN_ERROR = "''unknown error''"
        and isPipelineSelected = pipelineIndexDefined and jobId = "''job''" and qs = noPipeline
        and config = "None :: nat Config option"]
      empty_message_falls_back [OF f [of "Some ''Not Found''"] e [of "Some ''Not Found''"],
        where DATASET_SPLIT_NAMES = "[''eval'', ''train'']" and UNKNOWN_ERROR = "''unknown error''"
        and isPipelineSelected = pipelineIndexDefined and jobId = "''job''" and qs = noPipeline
        and config = "None :: nat Config option"]
    by simp
qed

subsection \<open>Sections\<close>

text \<open>
  In the theorems of this subsection the fetch has succeeded with data: it is not in
  flight, there is no error and \<open>data\<close> is \<open>datasetInfo\<close>. A pipeline is selected when
  \<open>isPipelineSelected\<close> holds of the \<open>pipeline\<close> of the query state.
\<close>

text \<open>
  C7. The header and the "Dataset Warnings" section are on every such page, whatever the
  pipeline selection and the fields of \<open>datasetInfo\<close> are. The header has the title
  "Dashboard", the fixed description and a button whose target is the prediction
  overview of \<open>firstAvailableDatasetSplit\<close> followed by \<open>searchString\<close>; when some
  split name has a true entry this is the first such name of \<open>DATASET_SPLIT_NAMES\<close>.
  The target of "Dataset Warnings" is \<open>/{jobId}/dataset_warnings{searchString}\<close>, a
  plain card whose path does not continue with \<open>dataset_splits\<close> after the job id.
\<close>

theorem header_and_warnings_always:
  fixes config :: "'p Config option"
  assumes "\<not> isFetching q" and "error q = None" and "data q = Some datasetInfo"
  shows "(\<exists>h. pageHeader
            (Dashboard DATASET_SPLIT_NAMES UNKNOWN_ERROR isPipelineSelected jobId qs config q) = Some h
            \<and> heading h = ''Dashboard''
            \<and> headerDescription h
              = Description ''Explore the analyses of your datasets and pipelines.'' ''user-guide/''
            \<and> buttonTo h = ''/'' @ jobId @ ''/dataset_splits/''
                @ interpolate (firstAvailableDatasetSplit DATASET_SPLIT_NAMES datasetInfo)
                @ ''/prediction_overview'' @ searchString qs
            \<and> ((\<exists>n \<in> set DATASET_SPLIT_NAMES. availableDatasetSplits datasetInfo n = Some True) \<longrightarrow>
                 (\<exists>i < length DATASET_SPLIT_NAMES.
                    buttonTo h = ''/'' @ jobId @ ''/dataset_splits/'' @ DATASET_SPLIT_NAMES ! i
                      @ ''/prediction_overview'' @ searchString qs
                  \<and> availableDatasetSplits datasetInfo (DATASET_SPLIT_NAMES ! i) = Some True
                  \<and> (\<forall>j < i. availableDatasetSplits datasetInfo (DATASET_SPLIT_NAMES ! j) \<noteq> Some True))))
       \<and> rendered ''Dataset Warnings''
            (Dashboard DATASET_SPLIT_NAMES UNKNOWN_ERROR isPipelineSelected jobId qs config q)
       \<and> (\<exists>c. findSection ''Dataset Warnings''
            (Dashboard DATASET_SPLIT_NAMES UNKNOWN_ERROR isPipelineSelected jobId qs config q) = Some (Card c)
            \<and> to c = ''/'' @ jobId @ ''/dataset_warnings'' @ searchString qs
            \<and> \<not> prefix (''/'' @ jobId @ ''/dataset_splits/'') (to c))"
proof -
  let ?h = "header DATASET_SPLIT_NAMES jobId qs datasetInfo"
  have page: "Dashboard DATASET_SPLIT_NAMES UNKNOWN_ERROR isPipelineSelected jobId qs config q
      = Page ?h (sections DATASET_SPLIT_NAMES isPipelineSelected jobId qs config datasetInfo)"
    using assms by (rule Dashboard_Page)
  have first: "\<exists>i < length DATASET_SPLIT_NAMES.
        buttonTo ?h = ''/'' @ jobId @ ''/dataset_splits/'' @ DATASET_SPLIT_NAMES ! i
          @ ''/prediction_overview'' @ searchString qs
      \<and> availableDatasetSplits datasetInfo (DATASET_SPLIT_NAMES ! i) = Some True
      \<and> (\<forall>j < i. availableDatasetSplits datasetInfo (DATASET_SPLIT_NAMES ! j) \<noteq> Some True)"
    if "\<exists>n \<in> set DATASET_SPLIT_NAMES. availableDatasetSplits datasetInfo n = Some True"
  proof -
    from find_first_available [OF that] obtain i where
      "i < length DATASET_SPLIT_NAMES"
      "firstAvailableDatasetSplit DATASET_SPLIT_NAMES datasetInfo = Some (DATASET_SPLIT_NAMES ! i)"
      "availableDatasetSplits datasetInfo (DATASET_SPLIT_NAMES ! i) = Some True"
      "\<forall>j < i. availableDatasetSplits datasetInfo (DATASET_SPLIT_NAMES ! j) \<noteq> Some True"
      by blast
    then show ?thesis by (intro exI [of _ i]) (simp add: header_def)
  qed
  have hd: "heading ?h = ''Dashboard''"
    "headerDescription ?h
       = Description ''Explore the analyses of your datasets and pipelines.'' ''user-guide/''"
    "buttonTo ?h = ''/'' @ jobId @ ''/dataset_splits/''
       @ interpolate (firstAvailableDatasetSplit DATASET_SPLIT_NAMES datasetInfo)
       @ ''/prediction_overview'' @ searchString qs"
    by (simp_all add: header_def)
  have warn: "\<exists>c. findSection ''Dataset Warnings''
            (Dashboard DATASET_SPLIT_NAMES UNKNOWN_ERROR isPipelineSelected jobId qs config q) = Some (Card c)
      \<and> to c = ''/'' @ jobId @ ''/dataset_warnings'' @ searchString qs
      \<and> \<not> prefix (''/'' @ jobId @ ''/dataset_splits/'') (to c)"
    using find_DatasetWarnings [of "header DATASET_SPLIT_NAMES jobId qs datasetInfo"
        DATASET_SPLIT_NAMES isPipelineSelected jobId qs config datasetInfo]
    unfolding page by auto
  then have "rendered ''Dataset Warnings''
            (Dashboard DATASET_SPLIT_NAMES UNKNOWN_ERROR isPipelineSelected jobId qs config q)"
    by (auto simp: rendered_def)
  with warn hd first show ?thesis
    unfolding page by simp
qed

theorem header_and_warnings_always_witness:
  "map_option buttonTo (pageHeader
     (Dashboard [''eval'', ''train''] ''unknown error'' pipelineIndexDefined ''job'' noPipeline
       twoPipelines
       (succeeded trainOnlyInfo)))
     = Some ''/job/dataset_splits/train/prediction_overview''
   \<and> rendered ''Dataset Warnings''
     (Dashboard [''eval'', ''train''] ''unknown error'' pipelineIndexDefined ''job'' noPipeline
       twoPipelines
       (succeeded trainOnlyInfo))
   \<and> map_option (to \<circ> cardAt None) (findSection ''Dataset Warnings''
     (Dashboard [''eval'', ''train''] ''unknown error'' pipelineIndexDefined ''job'' noPipeline
       twoPipelines
       (succeeded trainOnlyInfo)))
     = Some ''/job/dataset_warnings''"
  using
    header_and_warnings_always [OF succeeded_fields [of trainOnlyInfo],
      where DATASET_SPLIT_NAMES = "[''eval'', ''train'']" and UNKNOWN_ERROR = "''unknown error''"
      and isPipelineSelected = pipelineIndexDefined and jobId = "''job''"
      and qs = "noPipeline"
      and config = "twoPipelines"]
  by (auto simp: example_defs firstAvailableDatasetSplit_def)

text \<open>
  C4. "Class Overlap" is rendered exactly when the \<open>train\<close> entry of
  \<open>availableDatasetSplits\<close> is true and \<open>similarityAvailable\<close> is true, which covers the
  four combinations of the two. When rendered, its target is
  \<open>/{jobId}/dataset_splits/train/class_overlap{searchString}\<close>: the split is the literal
  \<open>train\<close>, not \<open>firstAvailableDatasetSplit\<close>.
\<close>

theorem classOverlap_rendered_iff:
  fixes config :: "'p Config option"
  assumes "\<not> isFetching q" and "error q = None" and "data q = Some datasetInfo"
  shows "(rendered ''Class Overlap''
            (Dashboard DATASET_SPLIT_NAMES UNKNOWN_ERROR isPipelineSelected jobId qs config q)
          \<longleftrightarrow> availableDatasetSplits datasetInfo ''train'' = Some True
              \<and> similarityAvailable datasetInfo)
       \<and> (availableDatasetSplits datasetInfo ''train'' = Some True \<and> similarityAvailable datasetInfo
            \<longrightarrow> (\<exists>c. findSection ''Class Overlap''
                        (Dashboard DATASET_SPLIT_NAMES UNKNOWN_ERROR isPipelineSelected jobId qs config q)
                      = Some (Card c)
                    \<and> to c = ''/'' @ jobId @ ''/dataset_splits/train/class_overlap'' @ searchString qs))"
  using find_ClassOverlap [of datasetInfo "header DATASET_SPLIT_NAMES jobId qs datasetInfo"
      DATASET_SPLIT_NAMES isPipelineSelected jobId qs config]
  by (auto simp: rendered_def Dashboard_Page [OF assms] split: if_splits)

text \<open>In the second example the default split is \<open>eval\<close> and the target still names \<open>train\<close>.\<close>

theorem classOverlap_rendered_iff_witness:
  "rendered ''Class Overlap''
     (Dashboard [''eval'', ''train''] ''unknown error'' pipelineIndexDefined ''job'' pipeline0
       twoPipelines
       (succeeded fullInfo))
   \<and> map_option (to \<circ> cardAt None) (findSection ''Class Overlap''
     (Dashboard [''eval'', ''train''] ''unknown error'' pipelineIndexDefined ''job'' pipeline0
       twoPipelines
       (succeeded fullInfo)))
     = Some ''/job/dataset_splits/train/class_overlap?pipeline_index=0''
   \<and> firstAvailableDatasetSplit [''eval'', ''train''] fullInfo = Some ''eval''
   \<and> \<not> rendered ''Class Overlap''
     (Dashboard [''eval'', ''train''] ''unknown error'' pipelineIndexDefined ''job'' noPipeline
       twoPipelines
       (succeeded trainOnlyInfo))"
  using
    classOverlap_rendered_iff [OF succeeded_fields [of fullInfo],
      where DATASET_SPLIT_NAMES = "[''eval'', ''train'']" and UNKNOWN_ERROR = "''unknown error''"
      and isPipelineSelected = pipelineIndexDefined and jobId = "''job''"
      and qs = "pipeline0"
      and config = "twoPipelines"]
    classOverlap_rendered_iff [OF succeeded_fields [of trainOnlyInfo],
      where DATASET_SPLIT_NAMES = "[''eval'', ''train'']" and UNKNOWN_ERROR = "''unknown error''"
      and isPipelineSelected = pipelineIndexDefined and jobId = "''job''"
      and qs = "noPipeline"
      and config = "twoPipelines"]
  by (auto simp: example_defs firstAvailableDatasetSplit_def)

text \<open>
  C5. "Pipeline Metrics by Data Subpopulation" and "Smart Tag Analysis" are each rendered
  exactly when a pipeline is selected; no field of \<open>datasetInfo\<close> takes part. Each is a
  \<open>WithDatasetSplitNameState\<close> element whose \<open>defaultDatasetSplitName\<close> is
  \<open>firstAvailableDatasetSplit\<close>, so its current split name starts as that value and
  the card it shows first links to that split.
\<close>

theorem pipeline_sections_rendered_iff:
  fixes config :: "'p Config option"
  assumes "\<not> isFetching q" and "error q = None" and "data q = Some datasetInfo"
  shows "(rendered ''Pipeline Metrics by Data Subpopulation''
            (Dashboard DATASET_SPLIT_NAMES UNKNOWN_ERROR isPipelineSelected jobId qs config q)
          \<longleftrightarrow> isPipelineSelected (pipeline qs))
       \<and> (rendered ''Smart Tag Analysis''
            (Dashboard DATASET_SPLIT_NAMES UNKNOWN_ERROR isPipelineSelected jobId qs config q)
          \<longleftrightarrow> isPipelineSelected (pipeline qs))
       \<and> (isPipelineSelected (pipeline qs) \<longrightarrow>
            (\<exists>d r. findSection ''Pipeline Metrics by Data Subpopulation''
                      (Dashboard DATASET_SPLIT_NAMES UNKNOWN_ERROR isPipelineSelected jobId qs config q)
                    = Some (WithDatasetSplitNameState d r)
                  \<and> initialDatasetSplitName d
                    = firstAvailableDatasetSplit DATASET_SPLIT_NAMES datasetInfo
                  \<and> to (initialCard (WithDatasetSplitNameState d r))
                    = ''/'' @ jobId @ ''/dataset_splits/''
                      @ interpolate (firstAvailableDatasetSplit DATASET_SPLIT_NAMES datasetInfo)
                      @ ''/pipeline_metrics'' @ searchString qs)
          \<and> (\<exists>d r. findSection ''Smart Tag Analysis''
                      (Dashboard DATASET_SPLIT_NAMES UNKNOWN_ERROR isPipelineSelected jobId qs config q)
                    = Some (WithDatasetSplitNameState d r)
                  \<and> initialDatasetSplitName d
                    = firstAvailableDatasetSplit DATASET_SPLIT_NAMES datasetInfo
                  \<and> to (initialCard (WithDatasetSplitNameState d r))
                    = ''/'' @ jobId @ ''/dataset_splits/''
                      @ interpolate (firstAvailableDatasetSplit DATASET_SPLIT_NAMES datasetInfo)
                      @ ''/smart_tags'' @ searchString qs))"
  using
    find_PipelineMetrics [of isPipelineSelected qs "header DATASET_SPLIT_NAMES jobId qs datasetInfo"
      DATASET_SPLIT_NAMES jobId config datasetInfo]
    find_SmartTags [of isPipelineSelected qs "header DATASET_SPLIT_NAMES jobId qs datasetInfo"
      DATASET_SPLIT_NAMES jobId config datasetInfo]
  by (auto simp: rendered_def initialDatasetSplitName_def Dashboard_Page [OF assms] split: if_splits)

theorem pipeline_sections_rendered_iff_witness:
  "rendered ''Pipeline Metrics by Data Subpopulation''
     (Dashboard [''eval'', ''train''] ''unknown error'' pipelineIndexDefined ''job'' pipeline0
       twoPipelines
       (succeeded trainOnlyInfo))
   \<and> rendered ''Smart Tag Analysis''
     (Dashboard [''eval'', ''train''] ''unknown error'' pipelineIndexDefined ''job'' pipeline0
       twoPipelines
       (succeeded trainOnlyInfo))
   \<and> map_option (to \<circ> initialCard) (findSection ''Smart Tag Analysis''
     (Dashboard [''eval'', ''train''] ''unknown error'' pipelineIndexDefined ''job'' pipeline0
       twoPipelines
       (succeeded trainOnlyInfo)))
     = Some ''/job/dataset_splits/train/smart_tags?pipeline_index=0''
   \<and> \<not> rendered ''Pipeline Metrics by Data Subpopulation''
     (Dashboard [''eval'', ''train''] ''unknown error'' pipelineIndexDefined ''job'' noPipeline
       twoPipelines
       (succeeded trainOnlyInfo))
   \<and> \<not> rendered ''Smart Tag Analysis''
     (Dashboard [''eval'', ''train''] ''unknown error'' pipelineIndexDefined ''job'' noPipeline
       twoPipelines
       (succeeded trainOnlyInfo))"
  using
    pipeline_sections_rendered_iff [OF succeeded_fields [of trainOnlyInfo],
      where DATASET_SPLIT_NAMES = "[''eval'', ''train'']" and UNKNOWN_ERROR = "''unknown error''"
      and isPipelineSelected = pipelineIndexDefined and jobId = "''job''"
      and qs = "pipeline0"
      and config = "twoPipelines"]
    pipeline_sections_rendered_iff [OF succeeded_fields [of trainOnlyInfo],
      where DATASET_SPLIT_NAMES = "[''eval'', ''train'']" and UNKNOWN_ERROR = "''unknown error''"
      and isPipelineSelected = pipelineIndexDefined and jobId = "''job''"
      and qs = "noPipeline"
      and config = "twoPipelines"]
  by (auto simp: example_defs firstAvailableDatasetSplit_def)

text \<open>
  C6. "Behavioral Testing" is rendered exactly when a pipeline is selected and
  \<open>perturbationTestingAvailable\<close> is true. It is a plain card, without split state, and
  its target is \<open>/{jobId}/behavioral_testing_summary{searchString}\<close>: the path does not
  continue with \<open>dataset_splits\<close> after the job id.
\<close>

theorem behavioralTesting_rendered_iff:
  fixes config :: "'p Config option"
  assumes "\<not> isFetching q" and "error q = None" and "data q = Some datasetInfo"
  shows "(rendered ''Behavioral Testing''
            (Dashboard DATASET_SPLIT_NAMES UNKNOWN_ERROR isPipelineSelected jobId qs config q)
          \<longleftrightarrow> isPipelineSelected (pipeline qs) \<and> perturbationTestingAvailable datasetInfo)
       \<and> (isPipelineSelected (pipeline qs) \<and> perturbationTestingAvailable datasetInfo
            \<longrightarrow> (\<exists>c. findSection ''Behavioral Testing''
                        (Dashboard DATASET_SPLIT_NAMES UNKNOWN_ERROR isPipelineSelected jobId qs config q)
                      = Some (Card c)
                    \<and> to c = ''/'' @ jobId @ ''/behavioral_testing_summary'' @ searchString qs
                    \<and> \<not> prefix (''/'' @ jobId @ ''/dataset_splits/'') (to c)))"
  using find_BehavioralTesting [of isPipelineSelected qs datasetInfo
      "header DATASET_SPLIT_NAMES jobId qs datasetInfo" DATASET_SPLIT_NAMES jobId config]
  by (auto simp: rendered_def Dashboard_Page [OF assms] split: if_splits)

theorem behavioralTesting_rendered_iff_witness:
  "rendered ''Behavioral Testing''
     (Dashboard [''eval'', ''train''] ''unknown error'' pipelineIndexDefined ''job'' pipeline0
       twoPipelines
       (succeeded fullInfo))
   \<and> map_option (to \<circ> cardAt None) (findSection ''Behavioral Testing''
     (Dashboard [''eval'', ''train''] ''unknown error'' pipelineIndexDefined ''job'' pipeline0
       twoPipelines
       (succeeded fullInfo)))
     = Some ''/job/behavioral_testing_summary?pipeline_index=0''
   \<and> \<not> rendered ''Behavioral Testing''
     (Dashboard [''eval'', ''train''] ''unknown error'' pipelineIndexDefined ''job'' pipeline0
       twoPipelines
       (succeeded trainOnlyInfo))
   \<and> \<not> rendered ''Behavioral Testing''
     (Dashboard [''eval'', ''train''] ''unknown error'' pipelineIndexDefined ''job'' noPipeline
       twoPipelines
       (succeeded fullInfo))"
  using
    behavioralTesting_rendered_iff [OF succeeded_fields [of fullInfo],
      where DATASET_SPLIT_NAMES = "[''eval'', ''train'']" and UNKNOWN_ERROR = "''unknown error''"
      and isPipelineSelected = pipelineIndexDefined and jobId = "''job''"
      and qs = "pipeline0"
      and config = "twoPipelines"]
    behavioralTesting_rendered_iff [OF succeeded_fields [of trainOnlyInfo],
      where DATASET_SPLIT_NAMES = "[''eval'', ''train'']" and UNKNOWN_ERROR = "''unknown error''"
      and isPipelineSelected = pipelineIndexDefined and jobId = "''job''"
      and qs = "pipeline0"
      and config = "twoPipelines"]
    behavioralTesting_rendered_iff [OF succeeded_fields [of fullInfo],
      where DATASET_SPLIT_NAMES = "[''eval'', ''train'']" and UNKNOWN_ERROR = "''unknown error''"
      and isPipelineSelected = pipelineIndexDefined and jobId = "''job''"
      and qs = "noPipeline"
      and config = "twoPipelines"]
  by (auto simp: example_defs)

text \<open>
  C3. "Post-processing Analysis" is rendered exactly when a pipeline is selected, the
  \<open>eval\<close> entry of \<open>availableDatasetSplits\<close> is true and \<open>postprocessingEditable\<close>
  has the value true at the pipeline's index. When the mapping has no entry at that index
  the section is not rendered.
\<close>

theorem postprocessing_rendered_iff:
  fixes config :: "'p Config option"
  assumes "\<not> isFetching q" and "error q = None" and "data q = Some datasetInfo"
  shows "(rendered ''Post-processing Analysis''
            (Dashboard DATASET_SPLIT_NAMES UNKNOWN_ERROR isPipelineSelected jobId qs config q)
          \<longleftrightarrow> isPipelineSelected (pipeline qs)
              \<and> availableDatasetSplits datasetInfo ''eval'' = Some True
              \<and> (\<exists>m i. postprocessingEditable datasetInfo = Some m
                     \<and> pipelineIndex (pipeline qs) = Some i \<and> m i = Some True))
       \<and> ((\<exists>m i. postprocessingEditable datasetInfo = Some m
               \<and> pipelineIndex (pipeline qs) = Some i \<and> m i = None)
            \<longrightarrow> \<not> rendered ''Post-processing Analysis''
                    (Dashboard DATASET_SPLIT_NAMES UNKNOWN_ERROR isPipelineSelected jobId qs config q))"
proof -
  let ?D = "Dashboard DATASET_SPLIT_NAMES UNKNOWN_ERROR isPipelineSelected jobId qs config q"
  have iff: "rendered ''Post-processing Analysis'' ?D
      \<longleftrightarrow> isPipelineSelected (pipeline qs)
        \<and> availableDatasetSplits datasetInfo ''eval'' = Some True
        \<and> postprocessingEditableAt datasetInfo (pipeline qs) = Some True"
    using find_Postprocessing [of isPipelineSelected qs datasetInfo
        "header DATASET_SPLIT_NAMES jobId qs datasetInfo" DATASET_SPLIT_NAMES jobId config]
    by (auto simp: rendered_def Dashboard_Page [OF assms] split: if_splits)
  show ?thesis
    unfolding iff postprocessingEditableAt_iff by auto
qed

theorem postprocessing_rendered_iff_witness:
  "rendered ''Post-processing Analysis''
     (Dashboard [''eval'', ''train''] ''unknown error'' pipelineIndexDefined ''job'' pipeline0
       twoPipelines
       (succeeded fullInfo))
   \<and> \<not> rendered ''Post-processing Analysis''
     (Dashboard [''eval'', ''train''] ''unknown error'' pipelineIndexDefined ''job'' pipeline0
       twoPipelines
       (succeeded trainOnlyInfo))
   \<and> \<not> rendered ''Post-processing Analysis''
     (Dashboard [''eval'', ''train''] ''unknown error'' pipelineIndexDefined ''job'' \<lparr>pipeline = \<lparr>pipelineIndex = Some 1\<rparr>, searchString = ''''\<rparr> twoPipelines
       (succeeded fullInfo))"
  using
    postprocessing_rendered_iff [OF succeeded_fields [of fullInfo],
      where DATASET_SPLIT_NAMES = "[''eval'', ''train'']" and UNKNOWN_ERROR = "''unknown error''"
      and isPipelineSelected = pipelineIndexDefined and jobId = "''job''"
      and qs = "pipeline0"
      and config = "twoPipelines"]
    postprocessing_rendered_iff [OF succeeded_fields [of trainOnlyInfo],
      where DATASET_SPLIT_NAMES = "[''eval'', ''train'']" and UNKNOWN_ERROR = "''unknown error''"
      and isPipelineSelected = pipelineIndexDefined and jobId = "''job''"
      and qs = "pipeline0"
      and config = "twoPipelines"]
    postprocessing_rendered_iff [OF succeeded_fields [of fullInfo],
      where DATASET_SPLIT_NAMES = "[''eval'', ''train'']" and UNKNOWN_ERROR = "''unknown error''"
      and isPipelineSelected = pipelineIndexDefined and jobId = "''job''"
      and qs = "\<lparr>pipeline = \<lparr>pipelineIndex = Some 1\<rparr>, searchString = ''''\<rparr>"
      and config = "twoPipelines"]
  by (simp add: example_defs)

text \<open>
  C8. Whenever "Pipeline Metrics by Data Subpopulation" is rendered, its
  \<open>linkButtonText\<close> is "Compare pipelines" exactly when the configuration is there and
  its \<open>pipelines\<close> list has more than one entry, whatever split the section shows.
  Otherwise (no configuration, no list, or a list of length 0 or 1) it is \<open>undefined\<close>,
  which is not the empty string.
\<close>

theorem compare_pipelines_label_iff:
  fixes config :: "'p Config option"
  assumes "\<not> isFetching q" and "error q = None" and "data q = Some datasetInfo"
    and "rendered ''Pipeline Metrics by Data Subpopulation''
            (Dashboard DATASET_SPLIT_NAMES UNKNOWN_ERROR isPipelineSelected jobId qs config q)"
  shows "\<exists>d r. findSection ''Pipeline Metrics by Data Subpopulation''
            (Dashboard DATASET_SPLIT_NAMES UNKNOWN_ERROR isPipelineSelected jobId qs config q)
                 = Some (WithDatasetSplitNameState d r)
             \<and> (\<forall>s. linkButtonText (r s)
                      = (if \<exists>c ps. config = Some c \<and> pipelines c = Some ps \<and> 1 < length ps
                         then Some ''Compare pipelines'' else None)
                    \<and> linkButtonText (r s) \<noteq> Some '''')"
  using assms(4)
    find_PipelineMetrics [of isPipelineSelected qs "header DATASET_SPLIT_NAMES jobId qs datasetInfo"
      DATASET_SPLIT_NAMES jobId config datasetInfo]
  unfolding compareLinkText_iff
  by (auto simp: rendered_def Dashboard_Page [OF assms(1-3)] split: if_splits)

theorem compare_pipelines_label_iff_witness:
  "rendered ''Pipeline Metrics by Data Subpopulation''
     (Dashboard [''eval'', ''train''] ''unknown error'' pipelineIndexDefined ''job'' pipeline0
       twoPipelines
       (succeeded fullInfo))
   \<and> map_option (linkButtonText \<circ> cardAt (Some ''train'')) (findSection ''Pipeline Metrics by Data Subpopulation''
     (Dashboard [''eval'', ''train''] ''unknown error'' pipelineIndexDefined ''job'' pipeline0
       twoPipelines
       (succeeded fullInfo)))
     = Some (Some ''Compare pipelines'')
   \<and> map_option (linkButtonText \<circ> cardAt (Some ''train'')) (findSection ''Pipeline Metrics by Data Subpopulation''
     (Dashboard [''eval'', ''train''] ''unknown error'' pipelineIndexDefined ''job'' pipeline0 (None :: nat Config option)
       (succeeded fullInfo)))
     = Some None
   \<and> map_option (linkButtonText \<circ> cardAt (Some ''train'')) (findSection ''Pipeline Metrics by Data Subpopulation''
     (Dashboard [''eval'', ''train''] ''unknown error'' pipelineIndexDefined ''job'' pipeline0 (Some \<lparr>pipelines = Some [0::nat]\<rparr>)
       (succeeded fullInfo)))
     = Some None"
proof -
  have r: "rendered ''Pipeline Metrics by Data Subpopulation''
     (Dashboard [''eval'', ''train''] ''unknown error'' pipelineIndexDefined ''job'' pipeline0 c
       (succeeded fullInfo))" for c :: "nat Config option"
    by (simp add: eval_defs example_defs)
  show ?thesis
    using r [of twoPipelines]
      compare_pipelines_label_iff [OF succeeded_fields [of fullInfo] r [of "twoPipelines"]]
      compare_pipelines_label_iff [OF succeeded_fields [of fullInfo] r [of "None :: nat Config option"]]
      compare_pipelines_label_iff [OF succeeded_fields [of fullInfo] r [of "Some \<lparr>pipelines = Some [0::nat]\<rparr>"]]
    by (auto simp: example_defs)
qed

text \<open>
  C9. The navigation targets of the page are the \<open>to\<close> of the header's button and of
  every card, for every split name a section with split state may show. Each of them is
  \<open>/{jobId}/<section-path>{searchString}\<close> or
  \<open>/{jobId}/dataset_splits/{split}/<section-path>{searchString}\<close> with a section path
  of the page: it starts with \<open>/{jobId}/\<close> and ends with \<open>searchString\<close>.
\<close>

theorem navigation_links_shape:
  fixes config :: "'p Config option"
  assumes "\<not> isFetching q" and "error q = None" and "data q = Some datasetInfo"
  shows "(\<exists>h. pageHeader
            (Dashboard DATASET_SPLIT_NAMES UNKNOWN_ERROR isPipelineSelected jobId qs config q) = Some h
            \<and> linkShape jobId (searchString qs) (buttonTo h)
            \<and> prefix (''/'' @ jobId @ ''/'') (buttonTo h)
            \<and> suffix (searchString qs) (buttonTo h))
       \<and> (\<forall>sec \<in> set (pageSections
            (Dashboard DATASET_SPLIT_NAMES UNKNOWN_ERROR isPipelineSelected jobId qs config q)). \<forall>s.
            linkShape jobId (searchString qs) (to (cardAt s sec))
          \<and> prefix (''/'' @ jobId @ ''/'') (to (cardAt s sec))
          \<and> suffix (searchString qs) (to (cardAt s sec)))"
  using header_link [of jobId qs DATASET_SPLIT_NAMES datasetInfo]
    sections_links [of DATASET_SPLIT_NAMES isPipelineSelected jobId qs config datasetInfo]
    linkShape_prefix_suffix [of jobId "searchString qs"]
  by (simp add: Dashboard_Page [OF assms])

theorem navigation_links_shape_witness:
  "to (cardAt (Some ''eval'') (pageSections
     (Dashboard [''eval'', ''train''] ''unknown error'' pipelineIndexDefined ''job'' pipeline0
       twoPipelines
       (succeeded fullInfo)) ! 2))
     = ''/job/dataset_splits/eval/pipeline_metrics?pipeline_index=0''
   \<and> linkShape ''job'' ''?pipeline_index=0'' (to (cardAt (Some ''eval'') (pageSections
     (Dashboard [''eval'', ''train''] ''unknown error'' pipelineIndexDefined ''job'' pipeline0
       twoPipelines
       (succeeded fullInfo)) ! 2)))
   \<and> prefix ''/job/'' (to (cardAt (Some ''eval'') (pageSections
     (Dashboard [''eval'', ''train''] ''unknown error'' pipelineIndexDefined ''job'' pipeline0
       twoPipelines
       (succeeded fullInfo)) ! 2)))
   \<and> suffix ''?pipeline_index=0'' (to (cardAt (Some ''eval'') (pageSections
     (Dashboard [''eval'', ''train''] ''unknown error'' pipelineIndexDefined ''job'' pipeline0
       twoPipelines
       (succeeded fullInfo)) ! 2)))"
proof -
  let ?D = "Dashboard [''eval'', ''train''] ''unknown error'' pipelineIndexDefined ''job'' pipeline0
    twoPipelines (succeeded fullInfo)"
  have m: "pageSections ?D ! 2 \<in> set (pageSections ?D)"
    by (simp add: eval_defs example_defs)
  have t: "to (cardAt (Some ''eval'') (pageSections ?D ! 2))
      = ''/job/dataset_splits/eval/pipeline_metrics?pipeline_index=0''"
    by (simp add: eval_defs example_defs)
  have s: "searchString pipeline0 = ''?pipeline_index=0''"
    by (simp add: pipeline0_def)
  from navigation_links_shape [OF succeeded_fields [of fullInfo],
      where DATASET_SPLIT_NAMES = "[''eval'', ''train'']" and UNKNOWN_ERROR = "''unknown error''"
      and isPipelineSelected = pipelineIndexDefined and jobId = "''job''"
      and qs = "pipeline0"
      and config = "twoPipelines"]
  have "\<forall>sec \<in> set (pageSections ?D). \<forall>s.
          linkShape ''job'' ''?pipeline_index=0'' (to (cardAt s sec))
        \<and> prefix ''/job/'' (to (cardAt s sec))
        \<and> suffix ''?pipeline_index=0'' (to (cardAt s sec))"
    unfolding s by simp
  with m t show ?thesis by blast
qed

end
